theory Spec2Isabelle
  imports Complex_Main "HOL-Library.Log_Nat"
begin

section \<open>Numbers\<close>

text \<open>
  A Go \<open>float64\<close> is modelled by the rational number it denotes (the finite values; JSON
  decoding and integer conversion produce no others). Go integers are modelled by \<open>int\<close>;
  the only operation the collector applies to them is the conversion \<open>float64(x)\<close>.

  Every floating-point operation rounds its exact result to the nearest value with a
  53-bit significand, ties to the even significand. The exponent range of binary64 is
  not modelled: the magnitudes that the collector computes come from 64-bit integers and
  the constant \<open>1e9\<close>, far from overflow and underflow.
\<close>

type_synonym float64 = rat

definition ilog2 :: "rat \<Rightarrow> int" where
  \<comment> \<open>the binary exponent \<open>e\<close> of a nonzero \<open>x\<close>: \<open>2^e \<le> |x| < 2^(e+1)\<close>\<close>
  "ilog2 x =
     (case quotient_of \<bar>x\<bar> of (a, b) \<Rightarrow>
        let d = bitlen a - bitlen b
        in if power_int 2 d \<le> \<bar>x\<bar> then d else d - 1)"

definition round_half_even :: "rat \<Rightarrow> int" where
  "round_half_even s =
     (let f = \<lfloor>s\<rfloor>; d = s - of_int f
      in if d < 1 / 2 then f
         else if 1 / 2 < d then f + 1
         else if even f then f else f + 1)"

definition round53 :: "rat \<Rightarrow> float64" where
  "round53 x =
     (if x = 0 then 0
      else let e = ilog2 x
           in of_int (round_half_even (x * power_int 2 (52 - e))) * power_int 2 (e - 52))"

definition float64_of_int :: "int \<Rightarrow> float64" where
  \<comment> \<open>the conversion \<open>float64(i)\<close>\<close>
  "float64_of_int i = round53 (of_int i)"

definition f64_div :: "float64 \<Rightarrow> float64 \<Rightarrow> float64" where
  \<comment> \<open>\<open>x / y\<close> for a nonzero divisor (the only divisor in the program is \<open>1e9\<close>)\<close>
  "f64_div x y = round53 (x / y)"

definition f64_sub :: "float64 \<Rightarrow> float64 \<Rightarrow> float64" where
  "f64_sub x y = round53 (x - y)"

section \<open>The metrics library: descriptors and constant metrics\<close>

datatype ValueType = CounterValue | GaugeValue | UntypedValue

record Desc =
  fqName :: string
  helpText :: string
  variableLabels :: "string list"

definition NewDesc :: "string \<Rightarrow> string \<Rightarrow> string list \<Rightarrow> Desc" where
  \<comment> \<open>the constant labels are \<open>nil\<close> at every call of the program and are left out\<close>
  "NewDesc name hlp labels = \<lparr>fqName = name, helpText = hlp, variableLabels = labels\<rparr>"

record Metric =
  desc :: Desc
  valType :: ValueType
  val :: float64
  labelValues :: "string list"

datatype panic = Panic string

definition MustNewConstMetric ::
    "Desc \<Rightarrow> ValueType \<Rightarrow> float64 \<Rightarrow> string list \<Rightarrow> panic + Metric" where
  \<comment> \<open>the library's constructor refuses label values whose number differs from the
      descriptor's label names, and the \<open>Must\<close> variant turns that error into a panic; its
      other checks (well-formed names, UTF-8 label values) are met by the constant ASCII
      strings of this program\<close>
  "MustNewConstMetric d t v lvs =
     (if length lvs \<noteq> length (variableLabels d)
      then Inl (Panic ''inconsistent label cardinality'')
      else Inr \<lparr>desc = d, valType = t, val = v, labelValues = lvs\<rparr>)"

section \<open>The device client\<close>

text \<open>
  The package \<open>api\<close> is an external collaborator. Its records carry the fields that the
  collector reads; a field passed to the library as it is has type \<open>float64\<close>, a field
  converted with \<open>float64(...)\<close> is an integer. A client is modelled by the outcome of each
  of its operations during one scrape; the deadline of 15 seconds that each fetch runs
  under decides only that outcome (a fetch that runs out of time has failed).
\<close>

type_synonym go_error = string

record Status =
  Uac :: float64
  Fac :: float64
  Rsoc :: int
  Usoc :: int
  ConsumptionW :: int
  ProductionW :: int
  RemainingCapacityWh :: int

record PowerMeter =
  VL1N :: float64
  VL2N :: float64
  VL3N :: float64
  VL1L2 :: float64
  VL2L3 :: float64
  VL3L1 :: float64
  WL1 :: float64
  WL2 :: float64
  WL3 :: float64
  KwhImported :: float64

record IcStatus =
  SecondsSinceFullCharge :: int

record LatestData =
  IcStatus :: IcStatus
  FullChargeCapacity :: int

record Sonnenbatterie =
  GetStatus :: "go_error + Status"
  GetPowerMeter :: "go_error + PowerMeter \<times> PowerMeter"
  GetLatestData :: "go_error + LatestData"
  HasToken :: bool

section \<open>The collector\<close>

record collector =
  api :: Sonnenbatterie
  gridVoltage :: Desc
  gridFrequency :: Desc
  chargePercent :: Desc
  usableChargePercent :: Desc
  consumptionPower :: Desc
  consumptionEnergy :: Desc
  productionPower :: Desc
  productionEnergy :: Desc
  lastFullyCharged :: Desc
  fullChargeCapacity :: Desc
  remaningChargeCapacity :: Desc

definition newCollector :: "Sonnenbatterie \<Rightarrow> collector" where
  "newCollector a =
     \<lparr>api = a,
      gridVoltage = NewDesc ''solar_battery_grid_voltage''
        ''Solar battery Grid (AC) voltage'' [''phase''],
      gridFrequency = NewDesc ''solar_battery_grid_frequency''
        ''Solar battery Grid (AC) frequency in Hz'' [],
      chargePercent = NewDesc ''solar_battery_charge_percent''
        ''Solar battery charge in percent'' [],
      usableChargePercent = NewDesc ''solar_battery_usable_charge_percent''
        ''Solar battery usable charge in percent'' [],
      consumptionPower = NewDesc ''solar_battery_consumption_power''
        ''Solar battery consumption power in watts'' [''phase''],
      consumptionEnergy = NewDesc ''solar_battery_consumption_energy_total''
        ''Total consumption measured in kwH'' [],
      productionPower = NewDesc ''solar_battery_production_power''
        ''Solar battery production power in watts'' [''phase''],
      productionEnergy = NewDesc ''solar_battery_production_energy_total''
        ''Total production measured in kwH'' [],
      lastFullyCharged = NewDesc ''solar_battery_last_fully_charged_unix_timestamp''
        ''Timestamp of last full charge'' [],
      fullChargeCapacity = NewDesc ''solar_battery_full_charge_capacity''
        ''Full charge capacity in watt hours'' [],
      remaningChargeCapacity = NewDesc ''solar_battery_remaining_charge_capacity''
        ''Remaining charge capacity in watt hours'' []\<rparr>"

definition Describe :: "collector \<Rightarrow> Desc list \<Rightarrow> Desc list" where
  \<comment> \<open>the channel of descriptors is the list of what was sent, oldest first\<close>
  "Describe c dch =
     dch @ [gridVoltage c, gridFrequency c, chargePercent c, usableChargePercent c,
            consumptionPower c, consumptionEnergy c, productionPower c, productionEnergy c]"

subsection \<open>What one scrape does to the world\<close>

datatype api_call = CallGetStatus | CallGetPowerMeter | CallGetLatestData | CallHasToken

record world =
  ch :: "Metric list"
  logged :: "(string \<times> go_error) list"
  calls :: "api_call list"

definition called :: "api_call \<Rightarrow> world \<Rightarrow> world" where
  "called k w = w\<lparr>calls := calls w @ [k]\<rparr>"

definition log_Error :: "go_error \<Rightarrow> string \<Rightarrow> world \<Rightarrow> world" where
  \<comment> \<open>\<open>log.Error().Err(err).Msg(msg)\<close>\<close>
  "log_Error err msg w = w\<lparr>logged := logged w @ [(msg, err)]\<rparr>"

definition send :: "panic + Metric \<Rightarrow> world \<Rightarrow> panic + world" where
  \<comment> \<open>\<open>ch <- prometheus.MustNewConstMetric(...)\<close>: a panic of the constructor ends the run\<close>
  "send r w = (case r of Inl p \<Rightarrow> Inl p | Inr m \<Rightarrow> Inr (w\<lparr>ch := ch w @ [m]\<rparr>))"

fun stmts :: "(world \<Rightarrow> panic + world) list \<Rightarrow> world \<Rightarrow> panic + world" where
  "stmts [] w = Inr w"
| "stmts (s # ss) w = (case s w of Inl p \<Rightarrow> Inl p | Inr w' \<Rightarrow> stmts ss w')"

definition collectStatus :: "collector \<Rightarrow> world \<Rightarrow> panic + world" where
  "collectStatus c w =
     (let w1 = called CallGetStatus w
      in case GetStatus (api c) of
           Inl err \<Rightarrow> Inr (log_Error err ''failed to get status'' w1)
         | Inr status \<Rightarrow>
             stmts
               [send (MustNewConstMetric (gridVoltage c) GaugeValue (Uac status) ['''']),
                send (MustNewConstMetric (gridFrequency c) GaugeValue (Fac status) []),
                send (MustNewConstMetric (chargePercent c) GaugeValue
                        (float64_of_int (Rsoc status)) []),
                send (MustNewConstMetric (usableChargePercent c) GaugeValue
                        (float64_of_int (Usoc status)) []),
                send (MustNewConstMetric (consumptionPower c) GaugeValue
                        (float64_of_int (ConsumptionW status)) ['''']),
                send (MustNewConstMetric (productionPower c) GaugeValue
                        (float64_of_int (ProductionW status)) ['''']),
                send (MustNewConstMetric (remaningChargeCapacity c) GaugeValue
                        (float64_of_int (RemainingCapacityWh status)) [])]
               w1)"

definition collectPowerMeter :: "collector \<Rightarrow> world \<Rightarrow> panic + world" where
  "collectPowerMeter c w =
     (let w1 = called CallGetPowerMeter w
      in case GetPowerMeter (api c) of
           Inl err \<Rightarrow> Inr (log_Error err ''failed to get power meter'' w1)
         | Inr (production, consumption) \<Rightarrow>
             stmts
               [send (MustNewConstMetric (gridVoltage c) GaugeValue (VL1N consumption) [''L1'']),
                send (MustNewConstMetric (gridVoltage c) GaugeValue (VL2N consumption) [''L2'']),
                send (MustNewConstMetric (gridVoltage c) GaugeValue (VL3N consumption) [''L3'']),
                send (MustNewConstMetric (gridVoltage c) GaugeValue (VL1L2 consumption)
                        [''L1-L2'']),
                send (MustNewConstMetric (gridVoltage c) GaugeValue (VL2L3 consumption)
                        [''L2-L3'']),
                send (MustNewConstMetric (gridVoltage c) GaugeValue (VL3L1 consumption)
                        [''L3-L1'']),
                send (MustNewConstMetric (consumptionPower c) GaugeValue (WL1 consumption)
                        [''L1'']),
                send (MustNewConstMetric (consumptionPower c) GaugeValue (WL2 consumption)
                        [''L2'']),
                send (MustNewConstMetric (consumptionPower c) GaugeValue (WL3 consumption)
                        [''L3'']),
                send (MustNewConstMetric (consumptionEnergy c) CounterValue
                        (KwhImported consumption) []),
                send (MustNewConstMetric (productionPower c) GaugeValue (WL1 production)
                        [''L1'']),
                send (MustNewConstMetric (productionPower c) GaugeValue (WL2 production)
                        [''L2'']),
                send (MustNewConstMetric (productionPower c) GaugeValue (WL3 production)
                        [''L3'']),
                send (MustNewConstMetric (productionEnergy c) CounterValue
                        (KwhImported production) [])]
               w1)"

definition collectLatestData :: "collector \<Rightarrow> int \<Rightarrow> world \<Rightarrow> panic + world" where
  \<comment> \<open>\<open>unixNano\<close> is what \<open>time.Now().UnixNano()\<close> returns during this scrape\<close>
  "collectLatestData c unixNano w =
     (let w1 = called CallGetLatestData w
      in case GetLatestData (api c) of
           Inl err \<Rightarrow> Inr (log_Error err ''failed to get latest data'' w1)
         | Inr latestData \<Rightarrow>
             stmts
               [send (MustNewConstMetric (lastFullyCharged c) GaugeValue
                        (f64_sub (f64_div (float64_of_int unixNano) 1000000000)
                           (float64_of_int (SecondsSinceFullCharge (IcStatus latestData))))
                        []),
                send (MustNewConstMetric (fullChargeCapacity c) GaugeValue
                        (float64_of_int (FullChargeCapacity latestData)) [])]
               w1)"

text \<open>
  The operation \<open>Collect\<close> of the collector; the name \<open>Collect\<close> itself is the set
  comprehension of HOL.
\<close>

definition Collect_op :: "collector \<Rightarrow> int \<Rightarrow> world \<Rightarrow> panic + world" where
  "Collect_op c unixNano w =
     (case collectStatus c w of
        Inl p \<Rightarrow> Inl p
      | Inr w1 \<Rightarrow>
          let w2 = called CallHasToken w1
          in if HasToken (api c)
             then stmts [collectPowerMeter c, collectLatestData c unixNano] w2
             else Inr w2)"

section \<open>Observing a run\<close>

text \<open>
  The samples that a step sends when it runs on an empty channel, the samples and the
  client calls that a run adds to a world, and the log entry of a failed fetch.
\<close>

definition emitted :: "(world \<Rightarrow> panic + world) \<Rightarrow> Metric list" where
  "emitted f = (case f \<lparr>ch = [], logged = [], calls = []\<rparr> of Inl p \<Rightarrow> [] | Inr w' \<Rightarrow> ch w')"

definition new_samples :: "world \<Rightarrow> world \<Rightarrow> Metric list" where
  "new_samples w w' = drop (length (ch w)) (ch w')"

definition new_calls :: "world \<Rightarrow> world \<Rightarrow> api_call list" where
  "new_calls w w' = drop (length (calls w)) (calls w')"

definition failure_log :: "string \<Rightarrow> go_error + 'a \<Rightarrow> (string \<times> go_error) list" where
  "failure_log msg r = (case r of Inl err \<Rightarrow> [(msg, err)] | Inr _ \<Rightarrow> [])"

section \<open>A sample scrape\<close>

text \<open>
  A client whose three fetches succeed, with the status payload of the specification's
  end-to-end scenario, used to instantiate the theorems below.
\<close>

definition status0 :: Status where
  "status0 = \<lparr>Uac = 230, Fac = 50, Rsoc = 80, Usoc = 75, ConsumptionW = 500,
               ProductionW = 1200, RemainingCapacityWh = 4000\<rparr>"

definition consumption0 :: PowerMeter where
  "consumption0 = \<lparr>VL1N = 231, VL2N = 232, VL3N = 233, VL1L2 = 400, VL2L3 = 401,
                    VL3L1 = 402, WL1 = 100, WL2 = 150, WL3 = 250, KwhImported = 1234\<rparr>"

definition production0 :: PowerMeter where
  "production0 = \<lparr>VL1N = 221, VL2N = 222, VL3N = 223, VL1L2 = 380, VL2L3 = 381,
                   VL3L1 = 382, WL1 = 300, WL2 = 400, WL3 = 500, KwhImported = 5678\<rparr>"

definition latestData0 :: LatestData where
  "latestData0 = \<lparr>IcStatus = \<lparr>SecondsSinceFullCharge = 3600\<rparr>, FullChargeCapacity = 10000\<rparr>"

definition client0 :: Sonnenbatterie where
  "client0 = \<lparr>GetStatus = Inr status0, GetPowerMeter = Inr (production0, consumption0),
               GetLatestData = Inr latestData0, HasToken = True\<rparr>"

definition clock0 :: int where
  \<comment> \<open>1,700,000,000 seconds after the epoch, in nanoseconds\<close>
  "clock0 = 1700000000 * 1000000000"

definition clock1 :: int where
  \<comment> \<open>a clock reading that is not a whole number of seconds\<close>
  "clock1 = 1700000000123456789"

definition idle :: world where
  "idle = \<lparr>ch = [], logged = [], calls = []\<rparr>"

section \<open>What the steps do\<close>

lemmas step_defs = called_def log_Error_def send_def MustNewConstMetric_def NewDesc_def

lemma emitted_collectStatus:
  "emitted (collectStatus (newCollector a)) =
     (case GetStatus a of
        Inl err \<Rightarrow> []
      | Inr status \<Rightarrow>
          [\<lparr>desc = gridVoltage (newCollector a), valType = GaugeValue,
             val = Uac status, labelValues = ['''']\<rparr>,
           \<lparr>desc = gridFrequency (newCollector a), valType = GaugeValue,
             val = Fac status, labelValues = []\<rparr>,
           \<lparr>desc = chargePercent (newCollector a), valType = GaugeValue,
             val = float64_of_int (Rsoc status), labelValues = []\<rparr>,
           \<lparr>desc = usableChargePercent (newCollector a), valType = GaugeValue,
             val = float64_of_int (Usoc status), labelValues = []\<rparr>,
           \<lparr>desc = consumptionPower (newCollector a), valType = GaugeValue,
             val = float64_of_int (ConsumptionW status), labelValues = ['''']\<rparr>,
           \<lparr>desc = productionPower (newCollector a), valType = GaugeValue,
             val = float64_of_int (ProductionW status), labelValues = ['''']\<rparr>,
           \<lparr>desc = remaningChargeCapacity (newCollector a), valType = GaugeValue,
             val = float64_of_int (RemainingCapacityWh status), labelValues = []\<rparr>])"
  by (simp add: emitted_def collectStatus_def newCollector_def step_defs split: sum.splits)

lemma emitted_collectPowerMeter:
  "emitted (collectPowerMeter (newCollector a)) =
     (case GetPowerMeter a of
        Inl err \<Rightarrow> []
      | Inr (production, consumption) \<Rightarrow>
          [\<lparr>desc = gridVoltage (newCollector a), valType = GaugeValue,
             val = VL1N consumption, labelValues = [''L1'']\<rparr>,
           \<lparr>desc = gridVoltage (newCollector a), valType = GaugeValue,
             val = VL2N consumption, labelValues = [''L2'']\<rparr>,
           \<lparr>desc = gridVoltage (newCollector a), valType = GaugeValue,
             val = VL3N consumption, labelValues = [''L3'']\<rparr>,
           \<lparr>desc = gridVoltage (newCollector a), valType = GaugeValue,
             val = VL1L2 consumption, labelValues = [''L1-L2'']\<rparr>,
           \<lparr>desc = gridVoltage (newCollector a), valType = GaugeValue,
             val = VL2L3 consumption, labelValues = [''L2-L3'']\<rparr>,
           \<lparr>desc = gridVoltage (newCollector a), valType = GaugeValue,
             val = VL3L1 consumption, labelValues = [''L3-L1'']\<rparr>,
           \<lparr>desc = consumptionPower (newCollector a), valType = GaugeValue,
             val = WL1 consumption, labelValues = [''L1'']\<rparr>,
           \<lparr>desc = consumptionPower (newCollector a), valType = GaugeValue,
             val = WL2 consumption, labelValues = [''L2'']\<rparr>,
           \<lparr>desc = consumptionPower (newCollector a), valType = GaugeValue,
             val = WL3 consumption, labelValues = [''L3'']\<rparr>,
           \<lparr>desc = consumptionEnergy (newCollector a), valType = CounterValue,
             val = KwhImported consumption, labelValues = []\<rparr>,
           \<lparr>desc = productionPower (newCollector a), valType = GaugeValue,
             val = WL1 production, labelValues = [''L1'']\<rparr>,
           \<lparr>desc = productionPower (newCollector a), valType = GaugeValue,
             val = WL2 production, labelValues = [''L2'']\<rparr>,
           \<lparr>desc = productionPower (newCollector a), valType = GaugeValue,
             val = WL3 production, labelValues = [''L3'']\<rparr>,
           \<lparr>desc = productionEnergy (newCollector a), valType = CounterValue,
             val = KwhImported production, labelValues = []\<rparr>])"
  by (simp add: emitted_def collectPowerMeter_def newCollector_def step_defs
           split: sum.splits prod.splits)

lemma emitted_collectLatestData:
  "emitted (collectLatestData (newCollector a) t) =
     (case GetLatestData a of
        Inl err \<Rightarrow> []
      | Inr latestData \<Rightarrow>
          [\<lparr>desc = lastFullyCharged (newCollector a), valType = GaugeValue,
             val = f64_sub (f64_div (float64_of_int t) 1000000000)
                     (float64_of_int (SecondsSinceFullCharge (IcStatus latestData))),
             labelValues = []\<rparr>,
           \<lparr>desc = fullChargeCapacity (newCollector a), valType = GaugeValue,
             val = float64_of_int (FullChargeCapacity latestData), labelValues = []\<rparr>])"
  by (simp add: emitted_def collectLatestData_def newCollector_def step_defs split: sum.splits)

lemma collectStatus_run:
  "collectStatus (newCollector a) w =
     Inr (w\<lparr>ch := ch w @ emitted (collectStatus (newCollector a)),
            logged := logged w @ failure_log ''failed to get status'' (GetStatus a),
            calls := calls w @ [CallGetStatus]\<rparr>)"
  by (simp add: emitted_def collectStatus_def newCollector_def step_defs failure_log_def
           split: sum.splits)

lemma collectPowerMeter_run:
  "collectPowerMeter (newCollector a) w =
     Inr (w\<lparr>ch := ch w @ emitted (collectPowerMeter (newCollector a)),
            logged := logged w @ failure_log ''failed to get power meter'' (GetPowerMeter a),
            calls := calls w @ [CallGetPowerMeter]\<rparr>)"
  by (simp add: emitted_def collectPowerMeter_def newCollector_def step_defs failure_log_def
           split: sum.splits prod.splits)

lemma collectLatestData_run:
  "collectLatestData (newCollector a) t w =
     Inr (w\<lparr>ch := ch w @ emitted (collectLatestData (newCollector a) t),
            logged := logged w @ failure_log ''failed to get latest data'' (GetLatestData a),
            calls := calls w @ [CallGetLatestData]\<rparr>)"
  by (simp add: emitted_def collectLatestData_def newCollector_def step_defs failure_log_def
           split: sum.splits)

lemma api_newCollector: "api (newCollector a) = a"
  by (simp add: newCollector_def)

lemma Collect_op_run:
  "Collect_op (newCollector a) t w =
     Inr (w\<lparr>ch := ch w @ emitted (collectStatus (newCollector a)) @
                (if HasToken a
                 then emitted (collectPowerMeter (newCollector a)) @
                      emitted (collectLatestData (newCollector a) t)
                 else []),
            logged := logged w @ failure_log ''failed to get status'' (GetStatus a) @
                (if HasToken a
                 then failure_log ''failed to get power meter'' (GetPowerMeter a) @
                      failure_log ''failed to get latest data'' (GetLatestData a)
                 else []),
            calls := calls w @ [CallGetStatus, CallHasToken] @
                (if HasToken a then [CallGetPowerMeter, CallGetLatestData] else [])\<rparr>)"
  by (simp add: Collect_op_def collectStatus_run collectPowerMeter_run collectLatestData_run
        api_newCollector called_def)


lemma emitted_Collect_op:
  "emitted (Collect_op (newCollector a) t) =
     emitted (collectStatus (newCollector a)) @
     (if HasToken a
      then emitted (collectPowerMeter (newCollector a)) @
           emitted (collectLatestData (newCollector a) t)
      else [])"
  unfolding emitted_def [of "Collect_op (newCollector a) t"] Collect_op_run by simp

text \<open>The eleven descriptors of a collector do not depend on its client.\<close>

lemma descs_newCollector:
  "gridVoltage (newCollector a) = NewDesc ''solar_battery_grid_voltage''
        ''Solar battery Grid (AC) voltage'' [''phase'']"
  "gridFrequency (newCollector a) = NewDesc ''solar_battery_grid_frequency''
        ''Solar battery Grid (AC) frequency in Hz'' []"
  "chargePercent (newCollector a) = NewDesc ''solar_battery_charge_percent''
        ''Solar battery charge in percent'' []"
  "usableChargePercent (newCollector a) = NewDesc ''solar_battery_usable_charge_percent''
        ''Solar battery usable charge in percent'' []"
  "consumptionPower (newCollector a) = NewDesc ''solar_battery_consumption_power''
        ''Solar battery consumption power in watts'' [''phase'']"
  "consumptionEnergy (newCollector a) = NewDesc ''solar_battery_consumption_energy_total''
        ''Total consumption measured in kwH'' []"
  "productionPower (newCollector a) = NewDesc ''solar_battery_production_power''
        ''Solar battery production power in watts'' [''phase'']"
  "productionEnergy (newCollector a) = NewDesc ''solar_battery_production_energy_total''
        ''Total production measured in kwH'' []"
  "lastFullyCharged (newCollector a) = NewDesc ''solar_battery_last_fully_charged_unix_timestamp''
        ''Timestamp of last full charge'' []"
  "fullChargeCapacity (newCollector a) = NewDesc ''solar_battery_full_charge_capacity''
        ''Full charge capacity in watt hours'' []"
  "remaningChargeCapacity (newCollector a) = NewDesc ''solar_battery_remaining_charge_capacity''
        ''Remaining charge capacity in watt hours'' []"
  by (simp_all add: newCollector_def)

section \<open>Failure isolation and the capability gate\<close>

text \<open>
  C1. Whatever the outcomes of the status, power-meter and latest-data fetches,
  \<open>Collect\<close> returns normally (no panic, no error handed to the caller), and the samples
  it appends to the channel are those of the status step, followed, when the client has a
  token (the steps that run), by those of the power-meter step and of the latest-data
  step. Each step contributes according to its own fetch alone: nothing when that fetch
  failed, and all of its 7, 14 or 2 samples when it succeeded, whatever the other
  fetches did.
\<close>

theorem Collect_isolates_fetch_failures:
  "\<exists>w'. Collect_op (newCollector a) t w = Inr w' \<and>
      ch w' =
        ch w @ emitted (collectStatus (newCollector a)) @
        (if HasToken a
         then emitted (collectPowerMeter (newCollector a)) @
              emitted (collectLatestData (newCollector a) t)
         else []) \<and>
      length (emitted (collectStatus (newCollector a))) =
        (case GetStatus a of Inl err \<Rightarrow> 0 | Inr status \<Rightarrow> 7) \<and>
      length (emitted (collectPowerMeter (newCollector a))) =
        (case GetPowerMeter a of Inl err \<Rightarrow> 0 | Inr meters \<Rightarrow> 14) \<and>
      length (emitted (collectLatestData (newCollector a) t)) =
        (case GetLatestData a of Inl err \<Rightarrow> 0 | Inr latestData \<Rightarrow> 2)"
proof -
  have "length (emitted (collectStatus (newCollector a))) =
        (case GetStatus a of Inl err \<Rightarrow> 0 | Inr status \<Rightarrow> 7)"
    by (simp add: emitted_collectStatus split: sum.splits)
  moreover have "length (emitted (collectPowerMeter (newCollector a))) =
        (case GetPowerMeter a of Inl err \<Rightarrow> 0 | Inr meters \<Rightarrow> 14)"
    by (simp add: emitted_collectPowerMeter split: sum.splits prod.splits)
  moreover have "length (emitted (collectLatestData (newCollector a) t)) =
        (case GetLatestData a of Inl err \<Rightarrow> 0 | Inr latestData \<Rightarrow> 2)"
    by (simp add: emitted_collectLatestData split: sum.splits)
  ultimately show ?thesis
    by (simp add: Collect_op_run)
qed

text \<open>
  C2. For a client without a token, \<open>Collect\<close> returns normally, the only client
  operations it calls are the status fetch and the capability query (so neither the
  power-meter fetch nor the latest-data fetch), and it adds exactly 7 samples when the
  status fetch succeeds and none when it fails.
\<close>

theorem Collect_without_token:
  assumes "\<not> HasToken a"
  shows "\<exists>w'. Collect_op (newCollector a) t w = Inr w' \<and>
           new_calls w w' = [CallGetStatus, CallHasToken] \<and>
           CallGetPowerMeter \<notin> set (new_calls w w') \<and>
           CallGetLatestData \<notin> set (new_calls w w') \<and>
           length (new_samples w w') = (case GetStatus a of Inl err \<Rightarrow> 0 | Inr status \<Rightarrow> 7)"
  using assms
  by (simp add: Collect_op_run new_samples_def new_calls_def emitted_collectStatus
        split: sum.splits)

theorem Collect_without_token_witness:
  "\<not> HasToken (client0\<lparr>HasToken := False\<rparr>) \<and>
   (\<exists>w'. Collect_op (newCollector (client0\<lparr>HasToken := False\<rparr>)) clock0 idle = Inr w' \<and>
           new_calls idle w' = [CallGetStatus, CallHasToken] \<and>
           length (new_samples idle w') = 7)"
  using Collect_without_token [of "client0\<lparr>HasToken := False\<rparr>" clock0 idle]
  by (auto simp add: client0_def)

text \<open>
  C3. For a client with a token whose three fetches succeed, \<open>Collect\<close> adds exactly 23
  samples: the 7 of the status step, then the 14 of the power-meter step, then the 2 of
  the latest-data step.
\<close>

theorem Collect_all_fetches_succeed:
  assumes "HasToken a"
    and "GetStatus a = Inr status"
    and "GetPowerMeter a = Inr (production, consumption)"
    and "GetLatestData a = Inr latestData"
  shows "\<exists>w'. Collect_op (newCollector a) t w = Inr w' \<and>
           length (new_samples w w') = 23 \<and>
           new_samples w w' =
             emitted (collectStatus (newCollector a)) @
             emitted (collectPowerMeter (newCollector a)) @
             emitted (collectLatestData (newCollector a) t) \<and>
           length (emitted (collectStatus (newCollector a))) = 7 \<and>
           length (emitted (collectPowerMeter (newCollector a))) = 14 \<and>
           length (emitted (collectLatestData (newCollector a) t)) = 2"
  using assms
  by (simp add: Collect_op_run new_samples_def emitted_collectStatus
        emitted_collectPowerMeter emitted_collectLatestData)

theorem Collect_all_fetches_succeed_witness:
  "HasToken client0 \<and> GetStatus client0 = Inr status0 \<and>
   GetPowerMeter client0 = Inr (production0, consumption0) \<and>
   GetLatestData client0 = Inr latestData0 \<and>
   (\<exists>w'. Collect_op (newCollector client0) clock0 idle = Inr w' \<and>
           length (new_samples idle w') = 23)"
proof -
  have h: "HasToken client0" "GetStatus client0 = Inr status0"
    "GetPowerMeter client0 = Inr (production0, consumption0)"
    "GetLatestData client0 = Inr latestData0"
    by (simp_all add: client0_def)
  from Collect_all_fetches_succeed [OF h, of clock0 idle] h show ?thesis by blast
qed

section \<open>The descriptors that Describe sends\<close>

text \<open>
  C4, as the specification states it, fails: \<open>Describe\<close> does not send exactly the seven
  descriptors of the status step. It sends the descriptor of the cumulative consumption
  energy, a metric that a client without a token never exports.
\<close>

theorem Describe_not_the_status_descriptors:
  "set (Describe (newCollector client0) []) \<noteq>
     {gridVoltage (newCollector client0), gridFrequency (newCollector client0),
      chargePercent (newCollector client0), usableChargePercent (newCollector client0),
      consumptionPower (newCollector client0), productionPower (newCollector client0),
      remaningChargeCapacity (newCollector client0)} \<and>
   consumptionEnergy (newCollector client0) \<in> set (Describe (newCollector client0) []) \<and>
   consumptionEnergy (newCollector client0) \<notin>
     desc ` set (emitted (Collect_op (newCollector (client0\<lparr>HasToken := False\<rparr>)) clock0))"
proof -
  let ?c = "newCollector client0"
  have inD: "consumptionEnergy ?c \<in> set (Describe ?c [])"
    by (simp add: Describe_def)
  have notS: "consumptionEnergy ?c \<notin>
     {gridVoltage ?c, gridFrequency ?c, chargePercent ?c, usableChargePercent ?c,
      consumptionPower ?c, productionPower ?c, remaningChargeCapacity ?c}"
    by (simp add: descs_newCollector NewDesc_def)
  have st: "GetStatus (client0\<lparr>HasToken := False\<rparr>) = Inr status0"
    by (simp add: client0_def)
  have notE: "consumptionEnergy ?c \<notin>
     desc ` set (emitted (Collect_op (newCollector (client0\<lparr>HasToken := False\<rparr>)) clock0))"
    by (simp add: emitted_Collect_op emitted_collectStatus st descs_newCollector NewDesc_def)
  from inD notS have "set (Describe ?c []) \<noteq>
     {gridVoltage ?c, gridFrequency ?c, chargePercent ?c, usableChargePercent ?c,
      consumptionPower ?c, productionPower ?c, remaningChargeCapacity ?c}"
    by metis
  with inD notE show ?thesis by simp
qed

text \<open>
  C4, amended. Leaving the descriptor of the remaining charge capacity aside,
  \<open>Describe\<close> sends the descriptors of grid voltage, grid frequency, charge percent,
  usable charge percent, consumption power and production power, and of the metrics
  exported only with a token the two cumulative energy totals and no other.
\<close>

theorem Describe_descriptors:
  "set (Describe (newCollector a) []) - {remaningChargeCapacity (newCollector a)} =
     {gridVoltage (newCollector a), gridFrequency (newCollector a),
      chargePercent (newCollector a), usableChargePercent (newCollector a),
      consumptionPower (newCollector a), productionPower (newCollector a),
      consumptionEnergy (newCollector a), productionEnergy (newCollector a)} \<and>
   lastFullyCharged (newCollector a) \<notin> set (Describe (newCollector a) []) \<and>
   fullChargeCapacity (newCollector a) \<notin> set (Describe (newCollector a) [])"
proof (intro conjI)
  show "set (Describe (newCollector a) []) - {remaningChargeCapacity (newCollector a)} =
     {gridVoltage (newCollector a), gridFrequency (newCollector a),
      chargePercent (newCollector a), usableChargePercent (newCollector a),
      consumptionPower (newCollector a), productionPower (newCollector a),
      consumptionEnergy (newCollector a), productionEnergy (newCollector a)}"
    by (auto simp add: Describe_def descs_newCollector NewDesc_def)
  show "lastFullyCharged (newCollector a) \<notin> set (Describe (newCollector a) [])"
    by (simp add: Describe_def descs_newCollector NewDesc_def)
  show "fullChargeCapacity (newCollector a) \<notin> set (Describe (newCollector a) [])"
    by (simp add: Describe_def descs_newCollector NewDesc_def)
qed

section \<open>The samples of the status step\<close>

text \<open>
  C5. After a successful status fetch, the samples of the status step whose descriptor
  declares a label are exactly three, of grid voltage, consumption power and production
  power in this order, each with the empty string as its one label value; no sample of
  the step carries \<open>L1\<close>, \<open>L2\<close> or \<open>L3\<close>.
\<close>

theorem status_samples_empty_phase_label:
  assumes "GetStatus a = Inr status"
  shows "map (\<lambda>m. (desc m, labelValues m))
           (filter (\<lambda>m. variableLabels (desc m) \<noteq> []) (emitted (collectStatus (newCollector a)))) =
         [(gridVoltage (newCollector a), ['''']),
          (consumptionPower (newCollector a), ['''']),
          (productionPower (newCollector a), [''''])] \<and>
         set (concat (map labelValues (emitted (collectStatus (newCollector a))))) \<inter>
           {''L1'', ''L2'', ''L3''} = {}"
  using assms by (simp add: emitted_collectStatus descs_newCollector NewDesc_def)

theorem status_samples_empty_phase_label_witness:
  "GetStatus client0 = Inr status0 \<and>
   map (\<lambda>m. (desc m, labelValues m))
     (filter (\<lambda>m. variableLabels (desc m) \<noteq> [])
        (emitted (collectStatus (newCollector client0)))) =
   [(gridVoltage (newCollector client0), ['''']),
    (consumptionPower (newCollector client0), ['''']),
    (productionPower (newCollector client0), [''''])]"
proof -
  have h: "GetStatus client0 = Inr status0"
    by (simp add: client0_def)
  from status_samples_empty_phase_label [OF h] h show ?thesis by blast
qed

section \<open>The samples of the power-meter step\<close>

text \<open>
  C7. After a successful power-meter fetch the power-meter step emits exactly 14
  samples, in this order: six of grid voltage labelled \<open>L1\<close>, \<open>L2\<close>, \<open>L3\<close>, \<open>L1-L2\<close>,
  \<open>L2-L3\<close>, \<open>L3-L1\<close>; three of consumption power labelled \<open>L1\<close>, \<open>L2\<close>, \<open>L3\<close>; one of
  the cumulative consumption energy; three of production power labelled \<open>L1\<close>, \<open>L2\<close>,
  \<open>L3\<close>; one of the cumulative production energy.
\<close>

theorem power_meter_emits_14_samples:
  assumes "GetPowerMeter a = Inr (production, consumption)"
  shows "length (emitted (collectPowerMeter (newCollector a))) = 14 \<and>
         map (\<lambda>m. (desc m, labelValues m)) (emitted (collectPowerMeter (newCollector a))) =
         [(gridVoltage (newCollector a), [''L1'']),
          (gridVoltage (newCollector a), [''L2'']),
          (gridVoltage (newCollector a), [''L3'']),
          (gridVoltage (newCollector a), [''L1-L2'']),
          (gridVoltage (newCollector a), [''L2-L3'']),
          (gridVoltage (newCollector a), [''L3-L1'']),
          (consumptionPower (newCollector a), [''L1'']),
          (consumptionPower (newCollector a), [''L2'']),
          (consumptionPower (newCollector a), [''L3'']),
          (consumptionEnergy (newCollector a), []),
          (productionPower (newCollector a), [''L1'']),
          (productionPower (newCollector a), [''L2'']),
          (productionPower (newCollector a), [''L3'']),
          (productionEnergy (newCollector a), [])]"
  using assms by (simp add: emitted_collectPowerMeter)

theorem power_meter_emits_14_samples_witness:
  "GetPowerMeter client0 = Inr (production0, consumption0) \<and>
   length (emitted (collectPowerMeter (newCollector client0))) = 14"
proof -
  have h: "GetPowerMeter client0 = Inr (production0, consumption0)"
    by (simp add: client0_def)
  from power_meter_emits_14_samples [OF h] h show ?thesis by blast
qed

text \<open>
  C10. After a successful power-meter fetch the six grid-voltage samples of the
  power-meter step carry the six voltage fields of the consumption record, and the
  voltage fields of the production record reach no sample: the power-meter step and a
  whole run of \<open>Collect\<close> are the same whatever these six fields hold.
\<close>

theorem grid_voltage_from_consumption:
  assumes "GetPowerMeter a = Inr (production, consumption)"
  shows "map (\<lambda>m. (labelValues m, val m))
           (filter (\<lambda>m. desc m = gridVoltage (newCollector a))
              (emitted (collectPowerMeter (newCollector a)))) =
         [([''L1''], VL1N consumption), ([''L2''], VL2N consumption),
          ([''L3''], VL3N consumption), ([''L1-L2''], VL1L2 consumption),
          ([''L2-L3''], VL2L3 consumption), ([''L3-L1''], VL3L1 consumption)] \<and>
         collectPowerMeter (newCollector (a\<lparr>GetPowerMeter :=
             Inr (production\<lparr>VL1N := v1, VL2N := v2, VL3N := v3,
                              VL1L2 := v12, VL2L3 := v23, VL3L1 := v31\<rparr>, consumption)\<rparr>)) w =
         collectPowerMeter (newCollector a) w \<and>
         Collect_op (newCollector (a\<lparr>GetPowerMeter :=
             Inr (production\<lparr>VL1N := v1, VL2N := v2, VL3N := v3,
                              VL1L2 := v12, VL2L3 := v23, VL3L1 := v31\<rparr>, consumption)\<rparr>)) t w =
         Collect_op (newCollector a) t w"
  using assms
  by (simp add: emitted_collectPowerMeter emitted_collectStatus emitted_collectLatestData
        Collect_op_run collectPowerMeter_run descs_newCollector NewDesc_def failure_log_def
        split: sum.splits)

theorem grid_voltage_from_consumption_witness:
  "GetPowerMeter client0 = Inr (production0, consumption0) \<and>
   map (\<lambda>m. (labelValues m, val m))
     (filter (\<lambda>m. desc m = gridVoltage (newCollector client0))
        (emitted (collectPowerMeter (newCollector client0)))) =
   [([''L1''], 231), ([''L2''], 232), ([''L3''], 233),
    ([''L1-L2''], 400), ([''L2-L3''], 401), ([''L3-L1''], 402)] \<and>
   Collect_op (newCollector (client0\<lparr>GetPowerMeter :=
       Inr (production0\<lparr>VL1N := 0, VL2N := 0, VL3N := 0,
                         VL1L2 := 0, VL2L3 := 0, VL3L1 := 0\<rparr>, consumption0)\<rparr>)) clock0 idle =
   Collect_op (newCollector client0) clock0 idle"
proof -
  have h: "GetPowerMeter client0 = Inr (production0, consumption0)"
    by (simp add: client0_def)
  have v: "VL1N consumption0 = 231" "VL2N consumption0 = 232" "VL3N consumption0 = 233"
    "VL1L2 consumption0 = 400" "VL2L3 consumption0 = 401" "VL3L1 consumption0 = 402"
    by (simp_all add: consumption0_def)
  from grid_voltage_from_consumption [OF h, of 0 0 0 0 0 0 idle clock0] h v
  show ?thesis by simp
qed

section \<open>Value types and label values of every sample\<close>

text \<open>
  C8. Every sample that one of the three steps emits has the counter type when its
  descriptor is the consumption energy total or the production energy total, and the
  gauge type when it is one of the nine others.
\<close>

theorem energy_totals_are_counters:
  "\<forall>m \<in> set (emitted (collectStatus (newCollector a))) \<union>
          set (emitted (collectPowerMeter (newCollector a))) \<union>
          set (emitted (collectLatestData (newCollector a) t)).
     valType m =
       (if desc m = consumptionEnergy (newCollector a) \<or> desc m = productionEnergy (newCollector a)
        then CounterValue else GaugeValue)"
  by (auto simp add: emitted_collectStatus emitted_collectPowerMeter emitted_collectLatestData
        descs_newCollector NewDesc_def split: sum.splits)

theorem energy_totals_are_counters_witness:
  "\<lparr>desc = consumptionEnergy (newCollector client0), valType = CounterValue,
     val = 1234, labelValues = []\<rparr>
     \<in> set (emitted (collectStatus (newCollector client0))) \<union>
        set (emitted (collectPowerMeter (newCollector client0))) \<union>
        set (emitted (collectLatestData (newCollector client0) clock0)) \<and>
   valType \<lparr>desc = consumptionEnergy (newCollector client0), valType = CounterValue,
              val = 1234, labelValues = []\<rparr> =
     (if desc \<lparr>desc = consumptionEnergy (newCollector client0), valType = CounterValue,
                val = 1234, labelValues = []\<rparr> = consumptionEnergy (newCollector client0) \<or>
         desc \<lparr>desc = consumptionEnergy (newCollector client0), valType = CounterValue,
                val = 1234, labelValues = []\<rparr> = productionEnergy (newCollector client0)
      then CounterValue else GaugeValue)"
proof -
  have h: "GetPowerMeter client0 = Inr (production0, consumption0)"
    by (simp add: client0_def)
  have k: "KwhImported consumption0 = 1234"
    by (simp add: consumption0_def)
  have mem: "\<lparr>desc = consumptionEnergy (newCollector client0), valType = CounterValue,
     val = 1234, labelValues = []\<rparr>
     \<in> set (emitted (collectStatus (newCollector client0))) \<union>
        set (emitted (collectPowerMeter (newCollector client0))) \<union>
        set (emitted (collectLatestData (newCollector client0) clock0))"
    by (simp add: emitted_collectPowerMeter h k)
  from energy_totals_are_counters [of client0 clock0] mem show ?thesis by blast
qed

text \<open>
  C9. Every sample that one of the three steps emits carries as many label values as
  its descriptor declares label names: one for grid voltage, consumption power and
  production power, none for the other descriptors.
\<close>

theorem label_values_match_label_names:
  "\<forall>m \<in> set (emitted (collectStatus (newCollector a))) \<union>
          set (emitted (collectPowerMeter (newCollector a))) \<union>
          set (emitted (collectLatestData (newCollector a) t)).
     length (labelValues m) = length (variableLabels (desc m)) \<and>
     length (labelValues m) =
       (if desc m = gridVoltage (newCollector a) \<or> desc m = consumptionPower (newCollector a) \<or>
           desc m = productionPower (newCollector a)
        then 1 else 0)"
  by (auto simp add: emitted_collectStatus emitted_collectPowerMeter emitted_collectLatestData
        descs_newCollector NewDesc_def split: sum.splits)

theorem label_values_match_label_names_witness:
  "\<lparr>desc = gridVoltage (newCollector client0), valType = GaugeValue,
     val = 231, labelValues = [''L1'']\<rparr>
     \<in> set (emitted (collectStatus (newCollector client0))) \<union>
        set (emitted (collectPowerMeter (newCollector client0))) \<union>
        set (emitted (collectLatestData (newCollector client0) clock0)) \<and>
   length (labelValues \<lparr>desc = gridVoltage (newCollector client0), valType = GaugeValue,
     val = 231, labelValues = [''L1'']\<rparr>) =
   length (variableLabels (desc \<lparr>desc = gridVoltage (newCollector client0),
     valType = GaugeValue, val = 231, labelValues = [''L1'']\<rparr>))"
proof -
  have h: "GetPowerMeter client0 = Inr (production0, consumption0)"
    by (simp add: client0_def)
  have k: "VL1N consumption0 = 231"
    by (simp add: consumption0_def)
  have mem: "\<lparr>desc = gridVoltage (newCollector client0), valType = GaugeValue,
     val = 231, labelValues = [''L1'']\<rparr>
     \<in> set (emitted (collectStatus (newCollector client0))) \<union>
        set (emitted (collectPowerMeter (newCollector client0))) \<union>
        set (emitted (collectLatestData (newCollector client0) clock0))"
    by (simp add: emitted_collectPowerMeter h k)
  from label_values_match_label_names [of client0 clock0] mem show ?thesis by blast
qed

section \<open>Rounding to binary64\<close>

text \<open>
  The exponent that \<open>ilog2\<close> computes is the binary exponent, a value with a significand
  below \<open>2^53\<close> is its own rounding, and rounding moves a value by at most the fraction
  \<open>2^-53\<close> of its magnitude.
\<close>

lemma of_int_lt_bitlen:
  assumes "0 < a"
  shows "(of_int a :: rat) < power_int 2 (bitlen a)"
    and "power_int 2 (bitlen a - 1) \<le> (of_int a :: rat)"
proof -
  from bitlen_bounds [OF assms]
  have lo: "2 ^ nat (bitlen a - 1) \<le> a" and hi: "a < 2 ^ nat (bitlen a)"
    by simp_all
  have pos: "1 \<le> bitlen a"
    using assms bitlen_eq_zero_iff [of a] bitlen_nonneg [of a] by linarith
  have "(of_int a :: rat) < of_int (2 ^ nat (bitlen a))"
    using hi by (simp only: of_int_less_iff)
  also have "\<dots> = power_int 2 (bitlen a)"
    using pos by (simp add: power_int_def)
  finally show "(of_int a :: rat) < power_int 2 (bitlen a)" .
  have "power_int 2 (bitlen a - 1) = (of_int (2 ^ nat (bitlen a - 1)) :: rat)"
    using pos by (simp add: power_int_def)
  also have "\<dots> \<le> of_int a"
    using lo by (simp only: of_int_le_iff)
  finally show "power_int 2 (bitlen a - 1) \<le> (of_int a :: rat)" .
qed

lemma ilog2_bounds:
  assumes "x \<noteq> 0"
  shows "power_int 2 (ilog2 x) \<le> \<bar>x\<bar>" and "\<bar>x\<bar> < power_int 2 (ilog2 x + 1)"
proof -
  obtain a b where q: "quotient_of \<bar>x\<bar> = (a, b)"
    by force
  have b: "0 < b"
    using quotient_of_denom_pos [OF q] .
  have x: "\<bar>x\<bar> = of_int a / of_int b"
    using quotient_of_div [OF q] .
  have "0 < \<bar>x\<bar>"
    using assms by simp
  with x b have a: "0 < a"
    by (simp add: zero_less_divide_iff)
  let ?d = "bitlen a - bitlen b"
  have bpos: "(0::rat) < of_int b"
    using b by simp
  have "\<bar>x\<bar> < power_int 2 (bitlen a) / of_int b"
    unfolding x using of_int_lt_bitlen(1) [OF a] bpos by (simp add: divide_strict_right_mono)
  also have "\<dots> \<le> power_int 2 (bitlen a) / power_int 2 (bitlen b - 1)"
    using of_int_lt_bitlen(2) [OF b] by (simp add: frac_le)
  also have "\<dots> = power_int 2 (?d + 1)"
    by (simp add: power_int_diff power_int_add)
  finally have up: "\<bar>x\<bar> < power_int 2 (?d + 1)" .
  have "power_int 2 (?d - 1) = power_int 2 (bitlen a - 1) / (power_int 2 (bitlen b) :: rat)"
    by (simp add: power_int_diff)
  also have "\<dots> \<le> of_int a / power_int 2 (bitlen b)"
    using of_int_lt_bitlen(2) [OF a] by (simp add: divide_right_mono)
  also have "\<dots> \<le> of_int a / of_int b"
    using of_int_lt_bitlen(1) [OF b] a bpos by (simp add: frac_le)
  finally have low: "power_int 2 (?d - 1) \<le> \<bar>x\<bar>"
    unfolding x .
  show "power_int 2 (ilog2 x) \<le> \<bar>x\<bar>"
    using low by (simp add: ilog2_def q Let_def)
  show "\<bar>x\<bar> < power_int 2 (ilog2 x + 1)"
    using up by (auto simp add: ilog2_def q Let_def not_le)
qed

lemma two_power_int_less_D:
  assumes "power_int (2::rat) m < power_int 2 n"
  shows "m < n"
proof (rule ccontr)
  assume "\<not> m < n"
  then have "n \<le> m"
    by simp
  then have "power_int (2::rat) n \<le> power_int 2 m"
    by (rule power_int_increasing) simp
  with assms show False
    by simp
qed

lemma round_half_even_of_int: "round_half_even (of_int n) = n"
  by (simp add: round_half_even_def)

lemma round_half_even_close: "\<bar>of_int (round_half_even s) - s\<bar> \<le> 1 / 2"
proof -
  have "of_int \<lfloor>s\<rfloor> \<le> s" and "s < of_int \<lfloor>s\<rfloor> + 1"
    by linarith+
  then show ?thesis
    by (auto simp add: round_half_even_def Let_def)
qed

lemma round53_representable:
  assumes "\<bar>m\<bar> < 2 ^ 53"
  shows "round53 (of_int m * power_int 2 k) = of_int m * power_int 2 k"
proof (cases "m = 0")
  case True
  then show ?thesis
    by (simp add: round53_def)
next
  case False
  let ?x = "of_int m * power_int 2 k :: rat"
  let ?e = "ilog2 ?x"
  have nz: "?x \<noteq> 0"
    using False by simp
  have absx: "\<bar>?x\<bar> = of_int \<bar>m\<bar> * power_int 2 k"
    by (simp add: abs_mult)
  have "(of_int \<bar>m\<bar> :: rat) < of_int (2 ^ 53)"
    using assms by (simp only: of_int_less_iff)
  then have "(of_int \<bar>m\<bar> :: rat) < power_int 2 53"
    by simp
  then have "\<bar>?x\<bar> < power_int 2 53 * power_int 2 k"
    unfolding absx by (simp add: mult_strict_right_mono)
  also have "\<dots> = power_int 2 (53 + k)"
    by (simp add: power_int_add)
  finally have "power_int (2::rat) ?e < power_int 2 (53 + k)"
    using ilog2_bounds(1) [OF nz] by simp
  then have "?e < 53 + k"
    by (rule two_power_int_less_D)
  then obtain j where j: "k + 52 - ?e = int j"
    using nonneg_int_cases [of "k + 52 - ?e"] by auto
  have "?x * power_int 2 (52 - ?e) = of_int m * power_int 2 (k + (52 - ?e))"
    by (simp add: power_int_add)
  also have "k + (52 - ?e) = int j"
    using j by simp
  finally have scaled: "?x * power_int 2 (52 - ?e) = of_int (m * 2 ^ j)"
    by simp
  have "round53 ?x = of_int (m * 2 ^ j) * power_int 2 (?e - 52)"
    using nz by (simp only: round53_def Let_def scaled round_half_even_of_int if_False)
  also have "\<dots> = of_int m * (power_int 2 (int j) * power_int 2 (?e - 52))"
    by simp
  also have "power_int 2 (int j) * power_int 2 (?e - 52) = (power_int 2 (int j + (?e - 52)) :: rat)"
    by (simp add: power_int_add)
  also have "int j + (?e - 52) = k"
    using j by simp
  finally show ?thesis .
qed

lemma round53_of_int:
  assumes "\<bar>m\<bar> < 2 ^ 53"
  shows "round53 (of_int m) = of_int m"
  using round53_representable [OF assms, of 0] by simp

lemma round53_close: "\<bar>round53 x - x\<bar> \<le> \<bar>x\<bar> / 2 ^ 53"
proof (cases "x = 0")
  case True
  then show ?thesis
    by (simp add: round53_def)
next
  case False
  let ?e = "ilog2 x"
  let ?s = "x * power_int 2 (52 - ?e)"
  let ?r = "of_int (round_half_even ?s) :: rat"
  have p: "(0::rat) < power_int 2 (?e - 52)"
    by simp
  have "(power_int 2 ((52 - ?e) + (?e - 52)) :: rat) =
        power_int 2 (52 - ?e) * power_int 2 (?e - 52)"
    by (rule power_int_add) simp
  then have inv: "power_int 2 (52 - ?e) * power_int 2 (?e - 52) = (1::rat)"
    by simp
  have "?s * power_int 2 (?e - 52) = x * (power_int 2 (52 - ?e) * power_int 2 (?e - 52))"
    by (simp only: mult.assoc)
  then have unscale: "?s * power_int 2 (?e - 52) = x"
    by (simp only: inv mult_1_right)
  have "round53 x - x = ?r * power_int 2 (?e - 52) - ?s * power_int 2 (?e - 52)"
    using False by (simp only: round53_def Let_def unscale if_False)
  also have "\<dots> = (?r - ?s) * power_int 2 (?e - 52)"
    by (simp add: algebra_simps)
  finally have "\<bar>round53 x - x\<bar> = \<bar>?r - ?s\<bar> * power_int 2 (?e - 52)"
    using p by (simp add: abs_mult)
  also have "\<dots> \<le> 1 / 2 * power_int 2 (?e - 52)"
    using round_half_even_close [of ?s] p by (simp add: mult_right_mono)
  also have "\<dots> = power_int 2 ?e / 2 ^ 53"
    by (simp add: power_int_diff)
  also have "\<dots> \<le> \<bar>x\<bar> / 2 ^ 53"
    using ilog2_bounds(1) [OF False] by (simp add: divide_right_mono)
  finally show ?thesis .
qed

lemma rounding_budget:
  fixes e1 e2 e3 e4 aN aS an aq as aqs tot :: rat
  assumes "e1 \<le> aN / 9007199254740992"
    and "e2 \<le> an / 1000000000 / 9007199254740992"
    and "e3 \<le> aS / 9007199254740992"
    and "e4 \<le> aqs / 9007199254740992"
    and "an \<le> aN + e1"
    and "aq \<le> an / 1000000000 + e2"
    and "as \<le> aS + e3"
    and "aqs \<le> aq + as"
    and "tot \<le> e4 + e2 + e1 / 1000000000 + e3"
    and "0 \<le> aN" and "0 \<le> aS"
  shows "tot \<le> aN / 1000000000 / 2251799813685248 + aS / 2251799813685248"
  using assms by linarith

lemma last_fully_charged_close:
  "\<bar>f64_sub (f64_div (float64_of_int n) 1000000000) (float64_of_int s) -
      (of_int n / 1000000000 - of_int s)\<bar>
   \<le> (\<bar>of_int n\<bar> / 1000000000 + \<bar>of_int s\<bar>) / 2 ^ 51"
proof -
  define N :: rat where "N = of_int n"
  define S :: rat where "S = of_int s"
  define n' where "n' = round53 N"
  define q where "q = round53 (n' / 1000000000)"
  define s' where "s' = round53 S"
  define v where "v = round53 (q - s')"
  have a1: "\<bar>n' - N\<bar> \<le> \<bar>N\<bar> / 9007199254740992"
    using round53_close [of N] by (simp add: n'_def)
  have a2: "\<bar>q - n' / 1000000000\<bar> \<le> \<bar>n'\<bar> / 1000000000 / 9007199254740992"
    using round53_close [of "n' / 1000000000"] by (simp add: q_def)
  have a3: "\<bar>s' - S\<bar> \<le> \<bar>S\<bar> / 9007199254740992"
    using round53_close [of S] by (simp add: s'_def)
  have a4: "\<bar>v - (q - s')\<bar> \<le> \<bar>q - s'\<bar> / 9007199254740992"
    using round53_close [of "q - s'"] by (simp add: v_def)
  have b1: "\<bar>n'\<bar> \<le> \<bar>N\<bar> + \<bar>n' - N\<bar>"
    by linarith
  have b2: "\<bar>q\<bar> \<le> \<bar>n'\<bar> / 1000000000 + \<bar>q - n' / 1000000000\<bar>"
    by (simp add: abs_diff_le_iff abs_le_iff) linarith
  have b3: "\<bar>s'\<bar> \<le> \<bar>S\<bar> + \<bar>s' - S\<bar>"
    by linarith
  have b4: "\<bar>q - s'\<bar> \<le> \<bar>q\<bar> + \<bar>s'\<bar>"
    by linarith
  have "v - (N / 1000000000 - S) =
      (v - (q - s')) + (q - n' / 1000000000) + (n' - N) / 1000000000 - (s' - S)"
    by (simp add: diff_divide_distrib)
  also have "\<bar>\<dots>\<bar> \<le>
      \<bar>v - (q - s')\<bar> + \<bar>q - n' / 1000000000\<bar> + \<bar>(n' - N) / 1000000000\<bar> + \<bar>s' - S\<bar>"
    by linarith
  finally have tri: "\<bar>v - (N / 1000000000 - S)\<bar> \<le>
      \<bar>v - (q - s')\<bar> + \<bar>q - n' / 1000000000\<bar> + \<bar>n' - N\<bar> / 1000000000 + \<bar>s' - S\<bar>"
    by simp
  have N0: "0 \<le> \<bar>N\<bar>" and S0: "0 \<le> \<bar>S\<bar>"
    by simp_all
  have "\<bar>v - (N / 1000000000 - S)\<bar> \<le>
      \<bar>N\<bar> / 1000000000 / 2251799813685248 + \<bar>S\<bar> / 2251799813685248"
    by (rule rounding_budget [OF a1 a2 a3 a4 b1 b2 b3 b4 tri N0 S0])
  then have "\<bar>v - (N / 1000000000 - S)\<bar> \<le> (\<bar>N\<bar> / 1000000000 + \<bar>S\<bar>) / 2251799813685248"
    by (simp add: add_divide_distrib)
  then show ?thesis
    by (simp add: v_def q_def s'_def n'_def N_def S_def f64_sub_def f64_div_def float64_of_int_def)
qed

lemma last_fully_charged_exact:
  assumes "n mod 1000000000 = 0" and "\<bar>n\<bar> < 2 ^ 32 * 1000000000" and "\<bar>s\<bar> < 2 ^ 52"
  shows "f64_sub (f64_div (float64_of_int n) 1000000000) (float64_of_int s) =
         of_int (n div 1000000000 - s)"
proof -
  define t where "t = n div 1000000000"
  have n: "n = t * 1000000000"
    using div_mult_mod_eq [of n 1000000000] assms(1) by (simp add: t_def)
  have t: "\<bar>t\<bar> < 2 ^ 32"
    using assms(2) unfolding n by simp
  have m: "\<bar>t * 1953125\<bar> < 2 ^ 53"
    using t by simp
  have split: "(of_int n :: rat) = of_int (t * 1953125) * power_int 2 9"
    by (simp add: n)
  have 1: "float64_of_int n = of_int n"
    by (simp only: float64_of_int_def split round53_representable [OF m])
  have "\<bar>t\<bar> < 2 ^ 53"
    using t by simp
  from round53_of_int [OF this]
  have 2: "f64_div (of_int n) 1000000000 = of_int t"
    by (simp add: f64_div_def n)
  have "\<bar>s\<bar> < 2 ^ 53"
    using assms(3) by simp
  from round53_of_int [OF this]
  have 3: "float64_of_int s = of_int s"
    by (simp add: float64_of_int_def)
  have "\<bar>t - s\<bar> < 2 ^ 53"
    using t assms(3) by simp
  from round53_of_int [OF this]
  have 4: "f64_sub (of_int t) (of_int s) = of_int (t - s)"
    by (simp add: f64_sub_def)
  have "f64_sub (f64_div (float64_of_int n) 1000000000) (float64_of_int s) = of_int (t - s)"
    by (simp only: 1 2 3 4)
  then show ?thesis
    by (simp only: t_def)
qed

section \<open>The time of the last full charge\<close>

text \<open>
  C6, as the specification states it, fails: the value is computed in \<open>float64\<close>, and
  at a clock reading of 1,700,000,000.123456789 seconds with 3600 seconds since the full
  charge the sample carries \<open>7130301701023415 / 2^22\<close>, which is not the difference
  1,699,996,400.123456789 of the two quantities.
\<close>

theorem last_fully_charged_not_exact:
  "map val (filter (\<lambda>m. desc m = lastFullyCharged (newCollector client0))
     (emitted (collectLatestData (newCollector client0) clock1))) =
     [7130301701023415 / 4194304] \<and>
   (7130301701023415 / 4194304 :: rat) \<noteq>
     of_int clock1 / 1000000000 - of_int (SecondsSinceFullCharge (IcStatus latestData0))"
proof -
  have h: "GetLatestData client0 = Inr latestData0"
    by (simp add: client0_def)
  have s: "SecondsSinceFullCharge (IcStatus latestData0) = 3600"
    by (simp add: latestData0_def)
  have v: "f64_sub (f64_div (float64_of_int 1700000000123456789) 1000000000)
             (float64_of_int 3600) = 7130301701023415 / 4194304"
    by code_simp
  have "map val (filter (\<lambda>m. desc m = lastFullyCharged (newCollector client0))
     (emitted (collectLatestData (newCollector client0) clock1))) =
     [7130301701023415 / 4194304]"
    by (simp add: emitted_collectLatestData h s v clock1_def descs_newCollector NewDesc_def)
  moreover have "(7130301701023415 / 4194304 :: rat) \<noteq>
     of_int clock1 / 1000000000 - of_int (SecondsSinceFullCharge (IcStatus latestData0))"
    by (simp add: s clock1_def)
  ultimately show ?thesis
    by simp
qed

text \<open>
  C6, amended. After a successful latest-data fetch the latest-data step emits one sample
  of the last-fully-charged descriptor. Its value is the clock reading in seconds since
  the epoch (the nanosecond reading divided by \<open>1e9\<close>) minus the seconds since the last
  full charge that the device reports, each operation rounded to \<open>float64\<close>. This value
  lies within the fraction \<open>2^-51\<close> of the magnitudes involved of the exact difference,
  and it is the exact difference when the clock shows a whole number of seconds (below
  \<open>2^32\<close>) and the device reports fewer than \<open>2^52\<close> seconds: a clock of 1,700,000,000
  seconds and 3600 seconds since the full charge give 1,699,996,400.
\<close>

theorem last_fully_charged_value:
  assumes "GetLatestData a = Inr latestData"
  shows "map val (filter (\<lambda>m. desc m = lastFullyCharged (newCollector a))
           (emitted (collectLatestData (newCollector a) unixNano))) =
         [f64_sub (f64_div (float64_of_int unixNano) 1000000000)
            (float64_of_int (SecondsSinceFullCharge (IcStatus latestData)))] \<and>
         \<bar>f64_sub (f64_div (float64_of_int unixNano) 1000000000)
            (float64_of_int (SecondsSinceFullCharge (IcStatus latestData))) -
          (of_int unixNano / 1000000000 -
           of_int (SecondsSinceFullCharge (IcStatus latestData)))\<bar>
           \<le> (\<bar>of_int unixNano\<bar> / 1000000000 +
               \<bar>of_int (SecondsSinceFullCharge (IcStatus latestData))\<bar>) / 2 ^ 51 \<and>
         (unixNano mod 1000000000 = 0 \<and> \<bar>unixNano\<bar> < 2 ^ 32 * 1000000000 \<and>
          \<bar>SecondsSinceFullCharge (IcStatus latestData)\<bar> < 2 ^ 52 \<longrightarrow>
          f64_sub (f64_div (float64_of_int unixNano) 1000000000)
            (float64_of_int (SecondsSinceFullCharge (IcStatus latestData))) =
          of_int (unixNano div 1000000000 - SecondsSinceFullCharge (IcStatus latestData)))"
proof (intro conjI impI)
  show "map val (filter (\<lambda>m. desc m = lastFullyCharged (newCollector a))
          (emitted (collectLatestData (newCollector a) unixNano))) =
        [f64_sub (f64_div (float64_of_int unixNano) 1000000000)
           (float64_of_int (SecondsSinceFullCharge (IcStatus latestData)))]"
    using assms by (simp add: emitted_collectLatestData descs_newCollector NewDesc_def)
  show "\<bar>f64_sub (f64_div (float64_of_int unixNano) 1000000000)
            (float64_of_int (SecondsSinceFullCharge (IcStatus latestData))) -
          (of_int unixNano / 1000000000 -
           of_int (SecondsSinceFullCharge (IcStatus latestData)))\<bar>
           \<le> (\<bar>of_int unixNano\<bar> / 1000000000 +
               \<bar>of_int (SecondsSinceFullCharge (IcStatus latestData))\<bar>) / 2 ^ 51"
    by (rule last_fully_charged_close)
next
  assume "unixNano mod 1000000000 = 0 \<and> \<bar>unixNano\<bar> < 2 ^ 32 * 1000000000 \<and>
          \<bar>SecondsSinceFullCharge (IcStatus latestData)\<bar> < 2 ^ 52"
  then have "unixNano mod 1000000000 = 0" and "\<bar>unixNano\<bar> < 2 ^ 32 * 1000000000"
    and "\<bar>SecondsSinceFullCharge (IcStatus latestData)\<bar> < 2 ^ 52"
    by (rule conjunct1, rule conjunct2 [THEN conjunct1], rule conjunct2 [THEN conjunct2])
  then show "f64_sub (f64_div (float64_of_int unixNano) 1000000000)
            (float64_of_int (SecondsSinceFullCharge (IcStatus latestData))) =
          of_int (unixNano div 1000000000 - SecondsSinceFullCharge (IcStatus latestData))"
    by (rule last_fully_charged_exact)
qed

theorem last_fully_charged_value_witness:
  "GetLatestData client0 = Inr latestData0 \<and>
   clock0 mod 1000000000 = 0 \<and> \<bar>clock0\<bar> < 2 ^ 32 * 1000000000 \<and>
   \<bar>SecondsSinceFullCharge (IcStatus latestData0)\<bar> < 2 ^ 52 \<and>
   clock0 div 1000000000 = 1700000000 \<and>
   SecondsSinceFullCharge (IcStatus latestData0) = 3600 \<and>
   map val (filter (\<lambda>m. desc m = lastFullyCharged (newCollector client0))
     (emitted (collectLatestData (newCollector client0) clock0))) = [1699996400]"
proof -
  have h: "GetLatestData client0 = Inr latestData0"
    by (simp add: client0_def)
  have s: "SecondsSinceFullCharge (IcStatus latestData0) = 3600"
    by (simp add: latestData0_def)
  have c: "clock0 mod 1000000000 = 0" "\<bar>clock0\<bar> < 2 ^ 32 * 1000000000"
    "clock0 div 1000000000 = 1700000000"
    by (simp_all add: clock0_def)
  have b: "\<bar>SecondsSinceFullCharge (IcStatus latestData0)\<bar> < 2 ^ 52"
    by (simp add: s)
  note t = last_fully_charged_value [OF h, of clock0]
  from t [THEN conjunct2, THEN conjunct2, rule_format, OF conjI [OF c(1) conjI [OF c(2) b]]]
  have "f64_sub (f64_div (float64_of_int clock0) 1000000000)
          (float64_of_int (SecondsSinceFullCharge (IcStatus latestData0))) = 1699996400"
    by (simp add: c s)
  with t [THEN conjunct1] h c s b show ?thesis
    by simp
qed

end
